theory Spec2Isabelle
  imports Main "HOL-Library.Word"
begin

section \<open>CSV to PostgreSQL extractor: data\<close>

text \<open>
  The repository holds two versions of the extractor: \<^verbatim>\<open>data_extractor.py\<close> (the
  improved one) and \<^verbatim>\<open>main.py\<close> (the first one). Both are embedded here. Where the
  two files use the same name for different code, the definitions taken from
  \<^verbatim>\<open>main.py\<close> carry their own method names (\<open>fetch_csv_data\<close>,
  \<open>create_table_if_not_exists\<close>, \<open>save_to_database\<close>, \<open>close_connection\<close>) and its
  \<open>main\<close> is \<open>main_py\<close>.
\<close>

subsection \<open>Characters and strings\<close>

text \<open>
  Column names are Python \<open>str\<close> values. They are modelled as HOL strings whose
  characters are ASCII code points: \<open>str.isspace\<close>, \<open>str.isalnum\<close> and
  \<open>str.lower\<close> are given on the ASCII range (for ASCII, Python's whitespace is
  9..13, 28..31 and 32), and code points above 127 are not represented.
\<close>

definition isspace :: "char \<Rightarrow> bool" where
  "isspace c = (let n = (of_char c :: nat) in (9 \<le> n \<and> n \<le> 13) \<or> (28 \<le> n \<and> n \<le> 32))"

definition isupper :: "char \<Rightarrow> bool" where
  "isupper c = (let n = (of_char c :: nat) in 65 \<le> n \<and> n \<le> 90)"

definition isalnum :: "char \<Rightarrow> bool" where
  "isalnum c = (let n = (of_char c :: nat) in
     (48 \<le> n \<and> n \<le> 57) \<or> (65 \<le> n \<and> n \<le> 90) \<or> (97 \<le> n \<and> n \<le> 122))"

definition lower_char :: "char \<Rightarrow> char" where
  "lower_char c = (if isupper c then char_of (of_char c + (32::nat)) else c)"

text \<open>\<open>s.lower()\<close>, \<open>s.strip()\<close> and \<open>s.replace(' ', '_')\<close>.\<close>

definition lower :: "string \<Rightarrow> string" where
  "lower s = map lower_char s"

definition strip :: "string \<Rightarrow> string" where
  "strip s = rev (dropWhile isspace (rev (dropWhile isspace s)))"

definition replace_space :: "string \<Rightarrow> string" where
  "replace_space s = map (\<lambda>c. if c = CHR '' '' then CHR ''_'' else c) s"

subsection \<open>Column-name sanitization\<close>

text \<open>
  \<^verbatim>\<open>data_extractor.py\<close>, the body of the loop of \<open>_sanitize_columns\<close>:
  \<^verbatim>\<open>
  name = col.strip().lower()
  name = ''.join(c if c.isalnum() or c=='_' else '_' for c in name)
  \<close>
\<close>

definition sanitize_name :: "string \<Rightarrow> string" where
  "sanitize_name col =
     (let name = lower (strip col)
      in map (\<lambda>c. if isalnum c \<or> c = CHR ''_'' then c else CHR ''_'') name)"

text \<open>
  \<^verbatim>\<open>main.py\<close>, in \<open>create_table_if_not_exists\<close> and again in \<open>save_to_database\<close>:
  \<^verbatim>\<open>col_name = col.replace(' ', '_').lower()\<close>
\<close>

definition col_name :: "string \<Rightarrow> string" where
  "col_name col = lower (replace_space col)"

subsection \<open>The data frame\<close>

text \<open>
  \<open>pandas.read_csv\<close> is a library call. What the extractor reads from its result
  is the ordered columns, the dtype of each column (\<open>str(dtype)\<close>) and the rows. A
  field of the CSV body is modelled as pandas tokenises it: a missing value (an empty
  field), a literal that converts to \<open>int64\<close>, a decimal literal, a boolean token, or
  any other text.
\<close>

datatype cell = NA | IntLit "64 word" | DecLit string | BoolLit bool | Text string

record dataframe =
  cols :: "(string \<times> string) list"
  rows :: "cell list list"

definition columns :: "dataframe \<Rightarrow> string list" where
  "columns d = map fst (cols d)"

text \<open>\<open>df.columns = names\<close>: pandas raises \<open>ValueError\<close> on a length mismatch; the
  extractor always assigns a list of the same length.\<close>

definition set_columns :: "string list \<Rightarrow> dataframe \<Rightarrow> dataframe" where
  "set_columns names d = d\<lparr>cols := zip names (map snd (cols d))\<rparr>"

fun is_int :: "cell \<Rightarrow> bool" where
  "is_int (IntLit _) = True"
| "is_int _ = False"

fun is_number_or_na :: "cell \<Rightarrow> bool" where
  "is_number_or_na NA = True"
| "is_number_or_na (IntLit _) = True"
| "is_number_or_na (DecLit _) = True"
| "is_number_or_na _ = False"

fun is_bool :: "cell \<Rightarrow> bool" where
  "is_bool (BoolLit _) = True"
| "is_bool _ = False"

text \<open>
  The dtype pandas gives a column read by \<open>read_csv\<close> with default arguments: \<open>int64\<close>
  needs every value present and integral (an integer column cannot hold a missing
  value); numbers with a decimal or a missing value make \<open>float64\<close>; boolean tokens
  alone make \<open>bool\<close>; everything else, and a column of no rows, is \<open>object\<close>.
\<close>

definition infer_dtype :: "cell list \<Rightarrow> string" where
  "infer_dtype vs =
     (if vs = [] then ''object''
      else if list_all is_int vs then ''int64''
      else if list_all is_number_or_na vs then ''float64''
      else if list_all is_bool vs then ''bool''
      else ''object'')"

text \<open>The body of a response: either text that \<open>read_csv\<close> rejects, or a header row
  and records (each record as wide as the header; a short record reads as missing
  values).\<close>

datatype payload = Unparseable | Table "string list" "cell list list"

datatype exn =
  ConnectionError | Timeout | HTTPError nat | ParserError | AttributeError
  | OperationalError | DatabaseError | InterfaceError

definition column_values :: "nat \<Rightarrow> cell list list \<Rightarrow> cell list" where
  "column_values i rs = map (\<lambda>r. case drop i r of [] \<Rightarrow> NA | v # _ \<Rightarrow> v) rs"

definition read_csv :: "payload \<Rightarrow> exn + dataframe" where
  "read_csv p =
     (case p of
        Unparseable \<Rightarrow> Inl ParserError
      | Table header rs \<Rightarrow>
          Inr \<lparr>cols = map (\<lambda>i. (header ! i, infer_dtype (column_values i rs))) [0..<length header],
               rows = rs\<rparr>)"

subsection \<open>Mapping dtypes to store types\<close>

text \<open>\<open>d.get(k, default)\<close> on a dict given by its items.\<close>

definition dict_get :: "('k \<times> 'v) list \<Rightarrow> 'k \<Rightarrow> 'v \<Rightarrow> 'v" where
  "dict_get d k dflt = (case map_of d k of None \<Rightarrow> dflt | Some v \<Rightarrow> v)"

text \<open>\<open>type_map\<close> of \<^verbatim>\<open>data_extractor.py\<close> and \<open>type_mapping\<close> of \<^verbatim>\<open>main.py\<close>.\<close>

definition type_map :: "(string \<times> string) list" where
  "type_map =
     [(''int64'', ''INTEGER''),
      (''float64'', ''NUMERIC''),
      (''object'', ''TEXT''),
      (''bool'', ''BOOLEAN''),
      (''datetime64[ns]'', ''TIMESTAMP'')]"


datatype coldef = ColDef string string

fun cname :: "coldef \<Rightarrow> string" where
  "cname (ColDef n _) = n"

fun ctype :: "coldef \<Rightarrow> string" where
  "ctype (ColDef _ t) = t"

text \<open>\<^verbatim>\<open>data_extractor.py\<close>, \<open>create_table\<close>: the list \<open>cols_defs\<close> built from
  \<open>self.df.dtypes.items()\<close>.\<close>

definition cols_defs :: "dataframe \<Rightarrow> coldef list" where
  "cols_defs d = map (\<lambda>(col, dtype). ColDef col (dict_get type_map dtype ''TEXT'')) (cols d)"

section \<open>The world the extractor talks to\<close>

subsection \<open>HTTP\<close>

record request =
  url :: string
  timeout :: "nat option"

text \<open>What the server of a URL does with a GET: the host cannot be reached, the
  connection is accepted and no reply ever comes, or a final response with a status
  code and a body arrives.\<close>

datatype reply = Unreachable | NoReply | Response nat payload

subsection \<open>The store\<close>

datatype statement =
    CreateTableIfNotExists string "coldef list"
  | Copy string "string list"
  | InsertInto string "string list"

record table =
  tdef :: "coldef list"
  trows :: "cell list list"

type_synonym database = "(string \<times> table) list"

text \<open>
  The environment of a run: the process environment (\<open>os.getenv\<close>), whether the store
  accepts the connection, what the server of each URL replies, which statements and
  which rows the store accepts, and whether a \<open>rollback()\<close> call goes through (it raises
  on a connection that broke).
\<close>

record env =
  getenv :: "string \<Rightarrow> string option"
  connect_ok :: bool
  server :: "string \<Rightarrow> reply"
  ddl_ok :: "statement \<Rightarrow> bool"
  row_ok :: "string \<Rightarrow> string list \<Rightarrow> cell list \<Rightarrow> bool"
  rollback_ok :: bool

text \<open>\<open>requests.get(url, timeout=t)\<close>: \<open>None\<close> is a call that never returns, which
  happens only when no timeout is given and the server never replies.\<close>

definition requests_get :: "env \<Rightarrow> request \<Rightarrow> (exn + nat \<times> payload) option" where
  "requests_get e r =
     (case server e (url r) of
        Unreachable \<Rightarrow> Some (Inl ConnectionError)
      | NoReply \<Rightarrow> (case timeout r of None \<Rightarrow> None | Some _ \<Rightarrow> Some (Inl Timeout))
      | Response st b \<Rightarrow> Some (Inr (st, b)))"

text \<open>\<open>Response.raise_for_status()\<close> raises \<open>HTTPError\<close> for the client and server
  error codes, 400 to 599, and for no other status.\<close>

definition raise_for_status :: "nat \<Rightarrow> exn + unit" where
  "raise_for_status st = (if 400 \<le> st \<and> st < 600 then Inl (HTTPError st) else Inr ())"

text \<open>Statements run inside the connection's transaction, on the working copy of the
  database. The store refuses a statement it finds invalid; \<open>CREATE TABLE IF NOT
  EXISTS\<close> leaves an existing table alone.\<close>

definition run_create :: "env \<Rightarrow> statement \<Rightarrow> database \<Rightarrow> exn + database" where
  "run_create e stmt db =
     (if \<not> ddl_ok e stmt then Inl DatabaseError
      else case stmt of
             CreateTableIfNotExists t defs \<Rightarrow>
               (if t \<in> set (map fst db) then Inr db
                else Inr (db @ [(t, \<lparr>tdef = defs, trows = []\<rparr>)]))
           | _ \<Rightarrow> Inl DatabaseError)"

definition add_rows :: "string \<Rightarrow> cell list list \<Rightarrow> database \<Rightarrow> database" where
  "add_rows t rs db =
     map (\<lambda>(n, tb). if n = t then (n, tb\<lparr>trows := trows tb @ rs\<rparr>) else (n, tb)) db"

text \<open>Rows sent by one \<open>COPY\<close> or one \<open>executemany\<close>: the first refused row raises,
  and the rows before it stay uncommitted.\<close>

definition run_insert ::
  "env \<Rightarrow> string \<Rightarrow> string list \<Rightarrow> cell list list \<Rightarrow> database \<Rightarrow> exn + database" where
  "run_insert e t cs rs db =
     (if t \<in> set (map fst db) \<and> list_all (row_ok e t cs) rs then Inr (add_rows t rs db)
      else Inl DatabaseError)"


section \<open>The extractor\<close>

subsection \<open>State\<close>

datatype event =
    Connect
  | HttpGet request
  | Execute statement
  | CopyExpert statement nat
  | ExecuteMany statement nat
  | Commit
  | Rollback
  | Close

text \<open>A log line is its level, its message and the numbers formatted into it (the
  accents of the messages and the texts formatted into them are left out).\<close>

datatype log_entry = Info string "nat list" | Error string

text \<open>
  The fields of the extractor object (\<open>csv_url\<close>, \<open>table_name\<close>, \<open>df\<close>, and \<open>conn\<close>:
  whether \<open>self.conn\<close> holds a connection object), the database as committed and as
  the open transaction sees it, the calls made to the outside in order, and the log.
\<close>

record system =
  csv_url :: string
  table_name :: string
  df :: "dataframe option"
  conn :: bool
  committed :: database
  working :: database
  events :: "event list"
  logs :: "log_entry list"

datatype 'a result = Returns 'a | Raises exn

definition init :: "string \<Rightarrow> string \<Rightarrow> database \<Rightarrow> system" where
  "init u t db =
     \<lparr>csv_url = u, table_name = t, df = None, conn = False,
      committed = db, working = db, events = [], logs = []\<rparr>"

definition emit :: "event \<Rightarrow> system \<Rightarrow> system" where
  "emit ev s = s\<lparr>events := events s @ [ev]\<rparr>"

definition info :: "string \<Rightarrow> nat list \<Rightarrow> system \<Rightarrow> system" where
  "info msg args s = s\<lparr>logs := logs s @ [Info msg args]\<rparr>"

definition error :: "string \<Rightarrow> system \<Rightarrow> system" where
  "error msg s = s\<lparr>logs := logs s @ [Error msg]\<rparr>"

definition commit :: "system \<Rightarrow> system" where
  "commit s = emit Commit (s\<lparr>committed := working s\<rparr>)"

text \<open>The end of both \<open>except\<close> handlers of the store steps: \<open>rollback()\<close>, then
  \<open>return False\<close>; an exception of \<open>rollback()\<close> leaves the method.\<close>

definition rollback_return_False :: "env \<Rightarrow> system \<Rightarrow> bool result \<times> system" where
  "rollback_return_False e s =
     (let s' = emit Rollback s
      in if rollback_ok e then (Returns False, s'\<lparr>working := committed s'\<rparr>)
         else (Raises InterfaceError, s'))"

subsection \<open>\<^verbatim>\<open>data_extractor.py\<close>\<close>


definition fetch_csv :: "env \<Rightarrow> system \<Rightarrow> (bool \<times> system) option" where
  "fetch_csv e s =
     (let s1 = info ''Descargando CSV desde'' [] s;
          req = \<lparr>url = csv_url s, timeout = Some 30\<rparr>;
          s2 = emit (HttpGet req) s1
      in case requests_get e req of
           None \<Rightarrow> None
         | Some (Inl x) \<Rightarrow> Some (False, error ''Error al obtener el CSV'' s2)
         | Some (Inr (st, b)) \<Rightarrow>
             (case raise_for_status st of
                Inl x \<Rightarrow> Some (False, error ''Error al obtener el CSV'' s2)
              | Inr _ \<Rightarrow>
                  (case read_csv b of
                     Inl x \<Rightarrow> Some (False, error ''Error al obtener el CSV'' s2)
                   | Inr d \<Rightarrow>
                       Some (True, info ''CSV cargado: filas x columnas''
                                     [length (rows d), length (cols d)]
                                     (s2\<lparr>df := Some d\<rparr>)))))"

definition sanitize_columns :: "dataframe \<Rightarrow> dataframe" where
  "sanitize_columns d = set_columns (map sanitize_name (columns d)) d"

definition id_column :: coldef where
  "id_column = ColDef ''id'' ''SERIAL PRIMARY KEY''"

definition import_date_column :: coldef where
  "import_date_column = ColDef ''import_date'' ''TIMESTAMP DEFAULT CURRENT_TIMESTAMP''"

definition create_table :: "env \<Rightarrow> system \<Rightarrow> bool result \<times> system" where
  "create_table e s =
     (case (conn s, df s) of
        (True, Some d0) \<Rightarrow>
          (let d = sanitize_columns d0;
               s1 = s\<lparr>df := Some d\<rparr>;
               stmt = CreateTableIfNotExists (table_name s)
                        (id_column # cols_defs d @ [import_date_column]);
               s2 = emit (Execute stmt) s1
           in case run_create e stmt (working s2) of
                Inr db \<Rightarrow>
                  (Returns True, info ''Tabla creada/verificada'' [] (commit (s2\<lparr>working := db\<rparr>)))
              | Inl x \<Rightarrow> rollback_return_False e (error ''Error al crear tabla'' s2))
      | _ \<Rightarrow> (Returns False, error ''No hay conexion o datos para crear tabla'' s))"

definition bulk_insert :: "env \<Rightarrow> system \<Rightarrow> bool result \<times> system" where
  "bulk_insert e s =
     (case (conn s, df s) of
        (True, Some d0) \<Rightarrow>
          (let d = sanitize_columns d0;
               s1 = s\<lparr>df := Some d\<rparr>;
               copy_stmt = Copy (table_name s) (columns d);
               s2 = emit (CopyExpert copy_stmt (length (rows d))) s1
           in case run_insert e (table_name s) (columns d) (rows d) (working s2) of
                Inr db \<Rightarrow>
                  (Returns True,
                   info ''registros insertados'' [length (rows d)] (commit (s2\<lparr>working := db\<rparr>)))
              | Inl x \<Rightarrow> rollback_return_False e (error ''Error en insercion masiva'' s2))
      | _ \<Rightarrow> (Returns False, error ''No hay conexion o datos para insertar'' s))"

definition close :: "system \<Rightarrow> system" where
  "close s = (if conn s then info ''Conexion cerrada'' [] (emit Close s) else s)"


subsection \<open>\<^verbatim>\<open>main.py\<close>\<close>


text \<open>\<open>requests.get(self.csv_url)\<close> is called with no timeout. The three \<open>except\<close>
  clauses differ in the message only.\<close>

definition fetch_csv_data :: "env \<Rightarrow> system \<Rightarrow> (bool \<times> system) option" where
  "fetch_csv_data e s =
     (let s1 = info ''Descargando CSV desde'' [] s;
          req = \<lparr>url = csv_url s, timeout = None\<rparr>;
          s2 = emit (HttpGet req) s1
      in case requests_get e req of
           None \<Rightarrow> None
         | Some (Inl x) \<Rightarrow> Some (False, error ''Error al descargar el CSV'' s2)
         | Some (Inr (st, b)) \<Rightarrow>
             (case raise_for_status st of
                Inl x \<Rightarrow> Some (False, error ''Error al descargar el CSV'' s2)
              | Inr _ \<Rightarrow>
                  (case read_csv b of
                     Inl x \<Rightarrow> Some (False, error ''Error al procesar el CSV'' s2)
                   | Inr d \<Rightarrow>
                       Some (True,
                             info ''Columnas'' []
                               (info ''CSV descargado y procesado: filas, columnas''
                                  [length (rows d), length (cols d)]
                                  (s2\<lparr>df := Some d\<rparr>))))))"









section \<open>Properties\<close>

subsection \<open>Concrete inputs\<close>

text \<open>A name is clean when the sanitizer of \<^verbatim>\<open>data_extractor.py\<close> has nothing to do
  on it.\<close>

definition clean_char :: "char \<Rightarrow> bool" where
  "clean_char c = ((isalnum c \<or> c = CHR ''_'') \<and> \<not> isupper c)"

text \<open>The frame of the source's data set, a store that accepts everything, and an
  extractor that is connected and holds the frame.\<close>

definition example_frame :: dataframe where
  "example_frame =
     \<lparr>cols = [(''Entity'', ''object''), (''Code'', ''object''), (''Year'', ''int64''),
              (''Crude Birth Rate (per 1,000 people)'', ''float64'')],
      rows = [[Text ''World'', Text ''OWID_WRL'', IntLit 2000, DecLit ''21.5''],
              [Text ''World'', Text ''OWID_WRL'', IntLit 2001, DecLit ''21.0'']]\<rparr>"

definition example_env :: env where
  "example_env =
     \<lparr>getenv = (\<lambda>k. None), connect_ok = True,
      server = (\<lambda>u. Response 200 (Table [''a''] [[IntLit 1]])),
      ddl_ok = (\<lambda>stmt. True), row_ok = (\<lambda>t cs r. True), rollback_ok = True\<rparr>"

definition example_state :: system where
  "example_state = (init ''http://example.org/data.csv'' ''crude_birth_rate'' [])
     \<lparr>conn := True, df := Some example_frame\<rparr>"

definition collide_frame :: dataframe where
  "collide_frame = \<lparr>cols = [(''Birth Rate'', ''float64''), (''birth_rate'', ''float64'')], rows = []\<rparr>"






definition created :: "statement \<Rightarrow> database \<Rightarrow> database" where
  "created stmt db = (case stmt of CreateTableIfNotExists t defs \<Rightarrow>
      if t \<in> set (map fst db) then db else db @ [(t, \<lparr>tdef = defs, trows = []\<rparr>)] | _ \<Rightarrow> db)"


text \<open>A server that answers with status 300 and a CSV body, a server that never
  answers, and an extractor just constructed.\<close>

definition redirect_env :: env where
  "redirect_env = example_env\<lparr>server := (\<lambda>u. Response 300 (Table [''a''] [[IntLit 1]]))\<rparr>"

definition silent_env :: env where
  "silent_env = example_env\<lparr>server := (\<lambda>u. NoReply)\<rparr>"

definition fresh :: system where
  "fresh = init ''http://example.org/data.csv'' ''crude_birth_rate'' []"

text \<open>A server that cannot be reached.\<close>

definition unreachable_env :: env where
  "unreachable_env = example_env\<lparr>server := (\<lambda>u. Unreachable)\<rparr>"

text \<open>How often a trace releases the connection, and the extractor objects the two
  \<open>main\<close> functions construct.\<close>

definition closes :: "event list \<Rightarrow> nat" where
  "closes evs = length (filter (\<lambda>ev. ev = Close) evs)"










subsection \<open>Sanitization: auxiliary facts\<close>

lemma not_isupper_lower_char: "\<not> isupper (lower_char c)"
  by (auto simp add: lower_char_def isupper_def Let_def)

lemma lower_char_idem: "lower_char (lower_char c) = lower_char c"
  using not_isupper_lower_char[of c] by (simp add: lower_char_def[of "lower_char c"])

lemma isalnum_not_isspace: "isalnum c \<Longrightarrow> \<not> isspace c"
  by (auto simp: isalnum_def isspace_def Let_def)

lemma underscore_not_isspace: "\<not> isspace CHR ''_''"
  by (simp add: isspace_def)

lemma underscore_not_isupper: "\<not> isupper CHR ''_''"
  by (simp add: isupper_def)

lemma underscore_not_isalnum: "\<not> isalnum CHR ''_''"
  by (simp add: isalnum_def)

lemma clean_char_sanitize_name: "c \<in> set (sanitize_name s) \<Longrightarrow> clean_char c"
  by (auto simp: sanitize_name_def lower_def clean_char_def Let_def
      not_isupper_lower_char underscore_not_isupper)

lemma dropWhile_none: "\<forall>c\<in>set s. \<not> P c \<Longrightarrow> dropWhile P s = s"
  by (cases s) auto

lemma strip_clean: "\<forall>c\<in>set s. \<not> isspace c \<Longrightarrow> strip s = s"
  by (simp add: strip_def dropWhile_none)

lemma clean_char_not_isspace: "clean_char c \<Longrightarrow> \<not> isspace c"
  by (auto simp: clean_char_def isalnum_not_isspace underscore_not_isspace)

lemma lower_char_clean: "clean_char c \<Longrightarrow> lower_char c = c"
  by (simp add: clean_char_def lower_char_def)

lemma sanitize_name_clean: "\<forall>c\<in>set s. clean_char c \<Longrightarrow> sanitize_name s = s"
proof -
  assume a: "\<forall>c\<in>set s. clean_char c"
  then have "strip s = s" by (simp add: strip_clean clean_char_not_isspace)
  moreover from a have "lower s = s" by (simp add: lower_def lower_char_clean map_idI)
  moreover from a have "map (\<lambda>c. if isalnum c \<or> c = CHR ''_'' then c else CHR ''_'') s = s"
    by (intro map_idI) (auto simp: clean_char_def)
  ultimately show ?thesis by (simp add: sanitize_name_def)
qed

lemma sanitize_name_idem: "sanitize_name (sanitize_name s) = sanitize_name s"
  by (rule sanitize_name_clean) (simp add: clean_char_sanitize_name)

lemma columns_set_columns: "length names = length (cols d) \<Longrightarrow> columns (set_columns names d) = names"
  by (simp add: columns_def set_columns_def)

lemma columns_sanitize_columns: "columns (sanitize_columns d) = map sanitize_name (columns d)"
proof -
  have "length (map sanitize_name (columns d)) = length (cols d)"
    by (simp add: columns_def)
  then show ?thesis
    unfolding sanitize_columns_def by (rule columns_set_columns)
qed

lemma snd_sanitize_columns: "map snd (cols (sanitize_columns d)) = map snd (cols d)"
  by (simp add: sanitize_columns_def set_columns_def columns_def)

lemma rows_sanitize_columns: "rows (sanitize_columns d) = rows d"
  by (simp add: sanitize_columns_def set_columns_def)

lemma sanitize_columns_idem: "sanitize_columns (sanitize_columns d) = sanitize_columns d"
proof -
  have "map sanitize_name (map sanitize_name (columns d)) = map sanitize_name (columns d)"
    by (simp add: sanitize_name_idem)
  then have "cols (sanitize_columns (sanitize_columns d)) = cols (sanitize_columns d)"
    by (simp only: sanitize_columns_def[of "sanitize_columns d"] set_columns_def
        columns_sanitize_columns snd_sanitize_columns)
       (simp add: sanitize_columns_def set_columns_def)
  then show ?thesis
    by (simp add: sanitize_columns_def[of "sanitize_columns d"] set_columns_def)
qed

lemma cname_cols_defs: "map cname (cols_defs d) = columns d"
  by (simp add: cols_defs_def columns_def split_def)

subsection \<open>The statements the store steps issue\<close>

lemma create_table_events:
  assumes "conn s" and "df s = Some d"
  shows "\<exists>r. events (snd (create_table e s)) =
           events s @ Execute (CreateTableIfNotExists (table_name s)
             (id_column # cols_defs (sanitize_columns d) @ [import_date_column])) # r"
  using assms
  by (auto simp: create_table_def Let_def emit_def info_def error_def commit_def
      rollback_return_False_def split: sum.splits)

lemma create_table_frame:
  assumes "conn s" and "df s = Some d"
  shows "conn (snd (create_table e s)) \<and> df (snd (create_table e s)) = Some (sanitize_columns d)
     \<and> table_name (snd (create_table e s)) = table_name s"
  using assms
  by (auto simp: create_table_def Let_def emit_def info_def error_def commit_def
      rollback_return_False_def split: sum.splits)

lemma bulk_insert_events:
  assumes "conn s" and "df s = Some d"
  shows "\<exists>r. events (snd (bulk_insert e s)) =
           events s @ CopyExpert (Copy (table_name s) (columns (sanitize_columns d)))
             (length (rows d)) # r"
  using assms
  by (auto simp: bulk_insert_def Let_def emit_def info_def error_def commit_def
      rollback_return_False_def rows_sanitize_columns split: sum.splits)

subsection \<open>Sanitization: claims\<close>

text \<open>
  C10. Sanitizing column names a second time changes nothing, for a list of names and
  for the columns of a frame. So when \<open>create_table\<close> and then \<open>bulk_insert\<close> run on the
  shared frame, each sanitizing it again, the \<open>COPY\<close> statement names the data columns
  of the \<open>CREATE TABLE\<close> statement, in the same order.
\<close>

theorem sanitization_idempotent:
  "map sanitize_name (map sanitize_name names) = map sanitize_name names
   \<and> sanitize_columns (sanitize_columns d) = sanitize_columns d
   \<and> (conn s \<and> df s = Some d \<longrightarrow>
        (\<exists>defs r1 r2.
           map cname defs = map sanitize_name (columns d)
           \<and> events (snd (create_table e s)) =
               events s @ Execute (CreateTableIfNotExists (table_name s)
                            (id_column # defs @ [import_date_column])) # r1
           \<and> events (snd (bulk_insert e (snd (create_table e s)))) =
               events (snd (create_table e s))
                 @ CopyExpert (Copy (table_name s) (map cname defs)) (length (rows d)) # r2))"
proof (intro conjI impI)
  show "map sanitize_name (map sanitize_name names) = map sanitize_name names"
    by (simp add: sanitize_name_idem)
  show "sanitize_columns (sanitize_columns d) = sanitize_columns d"
    by (rule sanitize_columns_idem)
next
  assume a: "conn s \<and> df s = Some d"
  let ?s1 = "snd (create_table e s)"
  let ?defs = "cols_defs (sanitize_columns d)"
  from a obtain r1 where r1: "events ?s1 = events s @ Execute (CreateTableIfNotExists (table_name s)
             (id_column # ?defs @ [import_date_column])) # r1"
    using create_table_events[of s d e] by blast
  from a have f: "conn ?s1" "df ?s1 = Some (sanitize_columns d)" "table_name ?s1 = table_name s"
    using create_table_frame[of s d e] by simp_all
  obtain r2 where r2: "events (snd (bulk_insert e ?s1)) =
      events ?s1 @ CopyExpert (Copy (table_name ?s1) (columns (sanitize_columns (sanitize_columns d))))
             (length (rows (sanitize_columns d))) # r2"
    using bulk_insert_events[OF f(1) f(2), of e] by blast
  have n: "map cname ?defs = map sanitize_name (columns d)"
    by (simp add: cname_cols_defs columns_sanitize_columns)
  have "events (snd (bulk_insert e ?s1)) =
      events ?s1 @ CopyExpert (Copy (table_name s) (map cname ?defs)) (length (rows d)) # r2"
    using r2 by (simp add: f(3) sanitize_columns_idem cname_cols_defs rows_sanitize_columns)
  with r1 n show "\<exists>defs r1 r2.
           map cname defs = map sanitize_name (columns d)
           \<and> events (snd (create_table e s)) =
               events s @ Execute (CreateTableIfNotExists (table_name s)
                            (id_column # defs @ [import_date_column])) # r1
           \<and> events (snd (bulk_insert e (snd (create_table e s)))) =
               events (snd (create_table e s))
                 @ CopyExpert (Copy (table_name s) (map cname defs)) (length (rows d)) # r2"
    by blast
qed

theorem sanitization_idempotent_witness:
  "conn example_state \<and> df example_state = Some example_frame
   \<and> (\<exists>defs r1 r2.
           map cname defs = [''entity'', ''code'', ''year'', ''crude_birth_rate__per_1_000_people_'']
           \<and> events (snd (create_table example_env example_state)) =
               Execute (CreateTableIfNotExists ''crude_birth_rate''
                            (id_column # defs @ [import_date_column])) # r1
           \<and> events (snd (bulk_insert example_env (snd (create_table example_env example_state)))) =
               events (snd (create_table example_env example_state))
                 @ CopyExpert (Copy ''crude_birth_rate'' (map cname defs)) 2 # r2)"
proof -
  have c: "conn example_state \<and> df example_state = Some example_frame"
    by (simp add: example_state_def init_def)
  have n: "map sanitize_name (columns example_frame) =
      [''entity'', ''code'', ''year'', ''crude_birth_rate__per_1_000_people_'']"
    by code_simp
  have t: "table_name example_state = ''crude_birth_rate''" "events example_state = []"
     "length (rows example_frame) = 2"
    by (simp_all add: example_state_def init_def example_frame_def)
  show ?thesis
    using sanitization_idempotent[of "[]" example_frame example_state example_env] c
    by (simp add: n t)
qed

text \<open>
  C2. The sanitizer of \<^verbatim>\<open>main.py\<close> replaces spaces only: on the header
  \<open>Crude Birth Rate (per 1,000 people)\<close> it keeps the parentheses and the comma, where
  the sanitizer of \<^verbatim>\<open>data_extractor.py\<close> leaves lower-case letters, digits and
  underscores.
\<close>

theorem main_py_sanitizer_keeps_punctuation:
  "col_name ''Crude Birth Rate (per 1,000 people)'' = ''crude_birth_rate_(per_1,000_people)''
   \<and> sanitize_name ''Crude Birth Rate (per 1,000 people)'' = ''crude_birth_rate__per_1_000_people_''"
  by code_simp

text \<open>
  C9, as stated, fails: the distinct names \<open>Birth Rate\<close> and \<open>birth_rate\<close> are sanitized
  to the same identifier by both sanitizers.
\<close>

theorem sanitized_names_collide:
  "distinct (columns collide_frame)
   \<and> \<not> distinct (columns (sanitize_columns collide_frame))
   \<and> \<not> distinct (map col_name (columns collide_frame))"
  by code_simp

text \<open>
  C9, amended. Neither sanitizer handles collisions: each name is mapped on its own, so
  the sanitized names of pairwise distinct columns are pairwise distinct exactly when
  the sanitizer is injective on these names.
\<close>

theorem sanitized_names_distinct_iff:
  assumes "distinct (columns d)"
  shows "distinct (columns (sanitize_columns d)) = inj_on sanitize_name (set (columns d))
       \<and> distinct (columns (set_columns (map col_name (columns d)) d))
           = inj_on col_name (set (columns d))"
proof -
  have "length (map col_name (columns d)) = length (cols d)" by (simp add: columns_def)
  then have "columns (set_columns (map col_name (columns d)) d) = map col_name (columns d)"
    by (rule columns_set_columns)
  with assms show ?thesis
    by (simp add: columns_sanitize_columns distinct_map)
qed

theorem sanitized_names_distinct_iff_witness:
  "distinct (columns example_frame)
   \<and> inj_on sanitize_name (set (columns example_frame))
   \<and> inj_on col_name (set (columns example_frame))"
proof -
  have d: "distinct (columns example_frame)"
    by code_simp
  have "distinct (columns (sanitize_columns example_frame))"
    by code_simp
  moreover have "distinct (columns (set_columns (map col_name (columns example_frame)) example_frame))"
    by code_simp
  ultimately show ?thesis
    using sanitized_names_distinct_iff[OF d] d by simp
qed

subsection \<open>Column types\<close>








subsection \<open>Table provisioning\<close>










lemma created_present:
  "t \<in> set (map fst db) \<Longrightarrow> created (CreateTableIfNotExists t defs) db = db"
  by (simp add: created_def)






subsection \<open>The schema-creation statement\<close>










subsection \<open>Fetching\<close>


lemma fetch_csv_data_returns:
  "server e (csv_url s) \<noteq> NoReply \<Longrightarrow>
   \<exists>ok s'. fetch_csv_data e s = Some (ok, s')
     \<and> events s' = events s @ [HttpGet \<lparr>url = csv_url s, timeout = None\<rparr>]
     \<and> conn s' = conn s \<and> table_name s' = table_name s
     \<and> committed s' = committed s \<and> working s' = working s"
  by (auto simp: fetch_csv_data_def requests_get_def Let_def emit_def info_def error_def
      split: reply.splits sum.splits)

lemma fetch_csv_False:
  "fetch_csv e s = Some (False, s') \<Longrightarrow> df s' = df s"
  by (auto simp: fetch_csv_def requests_get_def Let_def emit_def info_def error_def
      split: reply.splits sum.splits option.splits if_splits)

lemma fetch_csv_data_False:
  "fetch_csv_data e s = Some (False, s') \<Longrightarrow> df s' = df s"
  by (auto simp: fetch_csv_data_def requests_get_def Let_def emit_def info_def error_def
      split: reply.splits sum.splits option.splits if_splits)

lemma fetch_csv_fails:
  assumes "server e (csv_url s) = Unreachable \<or> server e (csv_url s) = NoReply
     \<or> (\<exists>st b. server e (csv_url s) = Response st b \<and> 400 \<le> st \<and> st < 600)
     \<or> (\<exists>st. server e (csv_url s) = Response st Unparseable)"
  shows "\<exists>s'. fetch_csv e s = Some (False, s')"
  using assms
  by (auto simp: fetch_csv_def requests_get_def raise_for_status_def read_csv_def Let_def
      split: sum.splits)

lemma fetch_csv_data_fails:
  assumes "server e (csv_url s) = Unreachable
     \<or> (\<exists>st b. server e (csv_url s) = Response st b \<and> 400 \<le> st \<and> st < 600)
     \<or> (\<exists>st. server e (csv_url s) = Response st Unparseable)"
  shows "\<exists>s'. fetch_csv_data e s = Some (False, s')"
  using assms
  by (auto simp: fetch_csv_data_def requests_get_def raise_for_status_def read_csv_def Let_def
      split: sum.splits)

text \<open>
  C6, as stated, fails: \<open>raise_for_status()\<close> raises for 400 to 599 only, so a final
  response with status 300 and a CSV body makes both fetch methods return \<open>True\<close> and
  store a frame.
\<close>

theorem other_status_yields_dataset:
  "server redirect_env (csv_url fresh) = Response 300 (Table [''a''] [[IntLit 1]])
   \<and> df fresh = None
   \<and> map_option fst (fetch_csv redirect_env fresh) = Some True
   \<and> map_option (df \<circ> snd) (fetch_csv redirect_env fresh)
       = Some (Some \<lparr>cols = [(''a'', ''int64'')], rows = [[IntLit 1]]\<rparr>)
   \<and> map_option fst (fetch_csv_data redirect_env fresh) = Some True
   \<and> map_option (df \<circ> snd) (fetch_csv_data redirect_env fresh)
       = Some (Some \<lparr>cols = [(''a'', ''int64'')], rows = [[IntLit 1]]\<rparr>)"
  by code_simp

text \<open>
  C6, amended. A fetch that returns \<open>False\<close> leaves the stored frame as it was (unset,
  on an extractor just constructed). The fetch of \<^verbatim>\<open>data_extractor.py\<close> returns
  \<open>False\<close> when the host cannot be reached, when the request times out, on a status
  from 400 to 599 and on a body that does not parse; the fetch of \<^verbatim>\<open>main.py\<close> does
  so when the host cannot be reached, on a status from 400 to 599 and on a body that
  does not parse.
\<close>

theorem failed_fetch_keeps_dataset:
  "(server e (csv_url s) = Unreachable \<or> server e (csv_url s) = NoReply
      \<or> (\<exists>st b. server e (csv_url s) = Response st b \<and> 400 \<le> st \<and> st < 600)
      \<or> (\<exists>st. server e (csv_url s) = Response st Unparseable)
    \<longrightarrow> (\<exists>s'. fetch_csv e s = Some (False, s') \<and> df s' = df s))
   \<and> (server e (csv_url s) = Unreachable
      \<or> (\<exists>st b. server e (csv_url s) = Response st b \<and> 400 \<le> st \<and> st < 600)
      \<or> (\<exists>st. server e (csv_url s) = Response st Unparseable)
    \<longrightarrow> (\<exists>s'. fetch_csv_data e s = Some (False, s') \<and> df s' = df s))
   \<and> (fetch_csv e s = Some (False, s1) \<longrightarrow> df s1 = df s)
   \<and> (fetch_csv_data e s = Some (False, s1) \<longrightarrow> df s1 = df s)"
proof (intro conjI impI)
  assume "server e (csv_url s) = Unreachable \<or> server e (csv_url s) = NoReply
      \<or> (\<exists>st b. server e (csv_url s) = Response st b \<and> 400 \<le> st \<and> st < 600)
      \<or> (\<exists>st. server e (csv_url s) = Response st Unparseable)"
  then obtain s' where "fetch_csv e s = Some (False, s')"
    using fetch_csv_fails by blast
  then show "\<exists>s'. fetch_csv e s = Some (False, s') \<and> df s' = df s"
    using fetch_csv_False by blast
next
  assume "server e (csv_url s) = Unreachable
      \<or> (\<exists>st b. server e (csv_url s) = Response st b \<and> 400 \<le> st \<and> st < 600)
      \<or> (\<exists>st. server e (csv_url s) = Response st Unparseable)"
  then obtain s' where "fetch_csv_data e s = Some (False, s')"
    using fetch_csv_data_fails by blast
  then show "\<exists>s'. fetch_csv_data e s = Some (False, s') \<and> df s' = df s"
    using fetch_csv_data_False by blast
next
  assume "fetch_csv e s = Some (False, s1)"
  then show "df s1 = df s" by (rule fetch_csv_False)
next
  assume "fetch_csv_data e s = Some (False, s1)"
  then show "df s1 = df s" by (rule fetch_csv_data_False)
qed

theorem failed_fetch_keeps_dataset_witness:
  "server unreachable_env (csv_url fresh) = Unreachable
   \<and> (\<exists>s'. fetch_csv unreachable_env fresh = Some (False, s') \<and> df s' = None)
   \<and> (\<exists>s'. fetch_csv_data unreachable_env fresh = Some (False, s') \<and> df s' = None)
   \<and> server silent_env (csv_url fresh) = NoReply
   \<and> (\<exists>s'. fetch_csv silent_env fresh = Some (False, s') \<and> df s' = None)"
proof -
  have u: "server unreachable_env (csv_url fresh) = Unreachable"
    by (simp add: unreachable_env_def)
  have n: "server silent_env (csv_url fresh) = NoReply"
    by (simp add: silent_env_def)
  have f: "df fresh = None"
    by (simp add: fresh_def init_def)
  show ?thesis
    using failed_fetch_keeps_dataset[of unreachable_env fresh]
      failed_fetch_keeps_dataset[of silent_env fresh] u n f
    by simp
qed

text \<open>
  C7. \<^verbatim>\<open>main.py\<close> issues its GET with no timeout: against a server that never answers,
  \<open>fetch_csv_data\<close> does not return. \<^verbatim>\<open>data_extractor.py\<close> passes \<open>timeout=30\<close> and
  returns \<open>False\<close> there.
\<close>

theorem main_py_get_has_no_timeout:
  "fetch_csv_data silent_env fresh = None
   \<and> map_option (events \<circ> snd) (fetch_csv_data example_env fresh)
       = Some [HttpGet \<lparr>url = ''http://example.org/data.csv'', timeout = None\<rparr>]
   \<and> map_option (events \<circ> snd) (fetch_csv silent_env fresh)
       = Some [HttpGet \<lparr>url = ''http://example.org/data.csv'', timeout = Some 30\<rparr>]
   \<and> map_option fst (fetch_csv silent_env fresh) = Some False"
  by code_simp

subsection \<open>The pipeline driver\<close>













lemma closes_close: "conn s \<Longrightarrow> closes (events (close s)) = closes (events s) + 1"
  by (simp add: close_def info_def emit_def closes_def)











subsection \<open>Bulk loading\<close>























end
